theory Spec2Isabelle
  imports Complex_Main "HOL-Library.Word"
begin

section \<open>Audio encoder: \<open>setupAudioProcessing\<close>, the per-sample conversion\<close>

text \<open>
  The source, in the \<open>onaudioprocess\<close> callback of \<open>setupAudioProcessing\<close>:
  \<^verbatim>\<open>
  const pcmData = new Int16Array(inputData.length);
  for (let i = 0; i < inputData.length; i++) {
    pcmData[i] = Math.max(-1, Math.min(1, inputData[i])) * 0x7FFF;
  }
  \<close>
  \<open>inputData\<close> is a \<open>Float32Array\<close>. A sample is a finite binary fraction, an infinity or
  NaN. A finite sample is carried by its exact rational value: the clamped sample has at
  most 24 significant bits and \<open>0x7FFF\<close> has 15, so the double-precision product is exact.
  The sign of zero is not modelled; both zeros are stored as the integer 0.
\<close>

datatype number = Finite rat | PosInf | NegInf | NaN

text \<open>\<open>Math.min\<close> and \<open>Math.max\<close> of two arguments: NaN if either argument is NaN.\<close>

fun Math_min :: "number \<Rightarrow> number \<Rightarrow> number" where
  "Math_min NaN y = NaN"
| "Math_min x NaN = NaN"
| "Math_min NegInf y = NegInf"
| "Math_min x NegInf = NegInf"
| "Math_min PosInf y = y"
| "Math_min x PosInf = x"
| "Math_min (Finite a) (Finite b) = Finite (min a b)"

fun Math_max :: "number \<Rightarrow> number \<Rightarrow> number" where
  "Math_max NaN y = NaN"
| "Math_max x NaN = NaN"
| "Math_max PosInf y = PosInf"
| "Math_max x PosInf = PosInf"
| "Math_max NegInf y = y"
| "Math_max x NegInf = x"
| "Math_max (Finite a) (Finite b) = Finite (max a b)"

text \<open>The product \<open>x * y\<close> of two numbers; an infinity times zero is NaN.\<close>

fun times_number :: "number \<Rightarrow> number \<Rightarrow> number" where
  "times_number NaN y = NaN"
| "times_number x NaN = NaN"
| "times_number (Finite a) (Finite b) = Finite (a * b)"
| "times_number (Finite a) PosInf = (if a = 0 then NaN else if 0 < a then PosInf else NegInf)"
| "times_number (Finite a) NegInf = (if a = 0 then NaN else if 0 < a then NegInf else PosInf)"
| "times_number PosInf (Finite b) = (if b = 0 then NaN else if 0 < b then PosInf else NegInf)"
| "times_number NegInf (Finite b) = (if b = 0 then NaN else if 0 < b then NegInf else PosInf)"
| "times_number PosInf PosInf = PosInf"
| "times_number PosInf NegInf = NegInf"
| "times_number NegInf PosInf = NegInf"
| "times_number NegInf NegInf = PosInf"

text \<open>
  Storing a number into an \<open>Int16Array\<close> element applies the language's \<open>ToInt16\<close>: NaN and
  the infinities become 0, a finite value loses its fractional part (towards zero) and is
  then reduced modulo \<open>2^16\<close> into the signed 16-bit range.
\<close>

definition trunc_rat :: "rat \<Rightarrow> int" where
  "trunc_rat r = (if 0 \<le> r then \<lfloor>r\<rfloor> else \<lceil>r\<rceil>)"

definition ToInt16 :: "number \<Rightarrow> 16 word" where
  "ToInt16 x = (case x of Finite r \<Rightarrow> word_of_int (trunc_rat r) | _ \<Rightarrow> 0)"

definition encode_sample :: "number \<Rightarrow> 16 word" where
  "encode_sample x =
     ToInt16 (times_number (Math_max (Finite (- 1)) (Math_min (Finite 1) x)) (Finite 32767))"

text \<open>The loop over the input buffer fills \<open>pcmData\<close> element by element.\<close>

definition encode_buffer :: "number list \<Rightarrow> 16 word list" where
  "encode_buffer inputData = map encode_sample inputData"

text \<open>
  The encoder as the specification words it: \<open>round(clamp(x,-1,1) * 32767)\<close>, the nearest
  integer to the scaled, clamped sample.
\<close>

definition spec_encode :: "rat \<Rightarrow> int" where
  "spec_encode x = round (max (- 1) (min 1 x) * 32767)"


section \<open>Values of the message handler\<close>

text \<open>
  A parsed message is any JSON value. The interfaces of the page (\<open>TranscriptLine\<close>,
  \<open>AnalysisData\<close>) are erased when the page runs, so the state holds whatever values the
  messages carried. A string is a list of characters, each standing for a code unit below
  256. A number is modelled where it is an integer \<open>n\<close> with \<open>-2^53 \<le> n < 2^53\<close>, held as a
  54-bit two's-complement word and read with \<open>sint\<close>; a speaker index is such a number.
  For these, \<open>n\<close> and \<open>n + 1\<close> are doubles, the sum is exact, and both print in plain
  decimal. Fractions and larger numbers are outside the type.
\<close>

type_synonym safe_integer = "54 word"

datatype json =
    JNull
  | JBool bool
  | JNum safe_integer
  | JStr string
  | JArr "json list"
  | JObj "(string \<times> json) list"

text \<open>
  Reading a property \<open>v.k\<close> of a value other than \<open>null\<close>; \<open>None\<close> is \<open>undefined\<close>. An
  object is the list of its own properties, each key once. Values that are not objects
  have none of the properties the page reads (\<open>type\<close>, \<open>speaker\<close>, \<open>text\<close>, \<open>data\<close>,
  \<open>message\<close>, \<open>status\<close>, \<open>event\<close>, \<open>symptoms\<close>, \<open>suggestions\<close>, \<open>severity\<close>, \<open>diagnoses\<close>).
\<close>

fun property :: "json \<Rightarrow> string \<Rightarrow> json option" where
  "property (JObj kvs) k = map_of kvs k"
| "property v k = None"

fun truthy :: "json option \<Rightarrow> bool" where
  "truthy None = False"
| "truthy (Some JNull) = False"
| "truthy (Some (JBool b)) = b"
| "truthy (Some (JNum n)) = (n \<noteq> 0)"
| "truthy (Some (JStr s)) = (s \<noteq> [])"
| "truthy (Some (JArr xs)) = True"
| "truthy (Some (JObj kvs)) = True"

fun typeof :: "json option \<Rightarrow> string" where
  "typeof None = ''undefined''"
| "typeof (Some JNull) = ''object''"
| "typeof (Some (JBool b)) = ''boolean''"
| "typeof (Some (JNum n)) = ''number''"
| "typeof (Some (JStr s)) = ''string''"
| "typeof (Some (JArr xs)) = ''object''"
| "typeof (Some (JObj kvs)) = ''object''"

text \<open>\<open>v || d\<close> with a default \<open>d\<close> that is a value: \<open>v\<close> if it is truthy, else \<open>d\<close>.\<close>

fun or_default :: "json option \<Rightarrow> json \<Rightarrow> json" where
  "or_default None d = d"
| "or_default (Some x) d = (if truthy (Some x) then x else d)"

text \<open>
  Number-to-string conversion of an integer of magnitude at most \<open>2^53\<close>: its decimal
  digits, after a minus sign if it is negative. It is applied to the value of a number
  of a message and to a speaker index plus one, both in that range.
\<close>

definition digit :: "nat \<Rightarrow> char" where
  "digit d = ''0123456789'' ! d"

fun digits :: "nat \<Rightarrow> string" where
  "digits n = (if n < 10 then [digit n] else digits (n div 10) @ [digit (n mod 10)])"

declare digits.simps [simp del]

definition number_to_string :: "int \<Rightarrow> string" where
  "number_to_string n = (if n < 0 then ''-'' @ digits (nat (- n)) else digits (nat n))"

text \<open>
  String conversion of a value inside a template literal. An array prints its elements
  separated by commas, \<open>null\<close> elements as the empty string. An object prints as
  \<open>[object Object]\<close>, unless it has a property \<open>toString\<close> of its own: that property is not
  callable, the inherited \<open>valueOf\<close> returns the object, and the conversion throws a
  TypeError (\<open>None\<close>).
\<close>

fun ToString :: "json \<Rightarrow> string option"
  and join :: "json list \<Rightarrow> string option"
  and element :: "json \<Rightarrow> string option" where
  "ToString JNull = Some ''null''"
| "ToString (JBool b) = Some (if b then ''true'' else ''false'')"
| "ToString (JNum n) = Some (number_to_string (sint n))"
| "ToString (JStr s) = Some s"
| "ToString (JArr xs) = join xs"
| "ToString (JObj kvs) =
     (if ''toString'' \<in> set (map fst kvs) then None else Some ''[object Object]'')"
| "join [] = Some []"
| "join [x] = element x"
| "join (x # y # ys) =
     (case element x of None \<Rightarrow> None
      | Some a \<Rightarrow> (case join (y # ys) of None \<Rightarrow> None | Some b \<Rightarrow> Some (a @ '','' @ b)))"
| "element JNull = Some []"
| "element (JBool b) = ToString (JBool b)"
| "element (JNum n) = ToString (JNum n)"
| "element (JStr s) = ToString (JStr s)"
| "element (JArr xs) = ToString (JArr xs)"
| "element (JObj kvs) = ToString (JObj kvs)"

fun template :: "json option \<Rightarrow> string option" where
  "template None = Some ''undefined''"
| "template (Some v) = ToString v"

text \<open>
  The number a string of decimal digits denotes. It belongs to no function of the page;
  it says what the digits of a speaker label mean.
\<close>

definition decimal_value :: "string \<Rightarrow> nat" where
  "decimal_value ds = foldl (\<lambda>a c. 10 * a + (of_char c - 48)) 0 ds"

section \<open>Page state\<close>

record TranscriptLine =
  id_line :: int
  text_line :: "json option"
  speaker_line :: "json option"
  timestamp_line :: "int option"

record AnalysisData =
  symptoms :: json
  suggestions :: json
  severity :: json
  diagnoses :: json

datatype level = Log | Warn | Error

datatype ready_state = CONNECTING | OPEN | CLOSING | CLOSED

datatype exn = TypeError

text \<open>
  The state of one \<open>ConsultationWorkspace\<close>: the React state the handlers set
  (\<open>transcript\<close>, \<open>analysis\<close>, \<open>error\<close>, \<open>isRecording\<close>, \<open>isProcessing\<close>,
  \<open>recordingDuration\<close>, \<open>activeTab\<close>), the console, and the devices behind the refs:
  the microphone stream, the socket of \<open>websocketRef\<close> with its \<open>readyState\<close> and
  \<open>bufferedAmount\<close>, the calls of its \<open>close\<close> and the buffers handed to its \<open>send\<close>, the
  processor node with the \<open>recording\<close> flag of its callback, the audio context, the media
  recorder, and the interval of \<open>simulateTranscription\<close> (its \<open>index\<close> and its period in
  milliseconds). A console entry keeps the fixed text of the message. The callback of the
  processor node is bound to the socket it was set up with; the state has one socket, so
  it describes a page with no processor node left over from before that socket was made.
\<close>

record page =
  transcript :: "TranscriptLine list"
  analysis :: AnalysisData
  error :: "string option"
  isRecording :: bool
  isProcessing :: bool
  recordingDuration :: nat
  activeTab :: string
  console :: "(level \<times> string) list"
  streamLive :: bool
  websocket :: "ready_state option"
  bufferedAmount :: nat
  closeCalls :: "(nat option \<times> string) list"
  sent :: "16 word list list"
  processorNode :: bool
  recording :: bool
  audioContext :: bool
  mediaRecorder :: bool
  mockInterval :: "(nat \<times> nat) option"

definition defaultSeverity :: json where
  "defaultSeverity = JObj [(''level'', JStr ''Low''), (''rationale'', JStr [])]"

definition initialAnalysis :: AnalysisData where
  "initialAnalysis =
     \<lparr>symptoms = JArr [], suggestions = JArr [], severity = defaultSeverity, diagnoses = JArr []\<rparr>"

definition initialPage :: page where
  "initialPage =
     \<lparr>transcript = [], analysis = initialAnalysis, error = None, isRecording = False,
      isProcessing = False, recordingDuration = 0, activeTab = ''live'', console = [],
      streamLive = False, websocket = None, bufferedAmount = 0, closeCalls = [], sent = [],
      processorNode = False, recording = False, audioContext = False, mediaRecorder = False,
      mockInterval = None\<rparr>"

definition say :: "level \<Rightarrow> string \<Rightarrow> page \<Rightarrow> page" where
  "say l m st = st\<lparr>console := console st @ [(l, m)]\<rparr>"

definition setError :: "string option \<Rightarrow> page \<Rightarrow> page" where
  "setError e st = st\<lparr>error := e\<rparr>"

text \<open>\<open>setTranscript(prev => [...prev, line])\<close>\<close>

definition appendLine :: "TranscriptLine \<Rightarrow> page \<Rightarrow> page" where
  "appendLine l st = st\<lparr>transcript := transcript st @ [l]\<rparr>"

section \<open>Speaker prefixes of the legacy message shapes\<close>

text \<open>
  \<open>extractSpeakerFromText\<close> matches \<open>/^(Speaker \d+):/\<close> and returns the group;
  \<open>removeSpeakerPrefix\<close> replaces \<open>/^(Speaker \d+):\s*/\<close> by the empty string. The digits
  are matched greedily, so the group is the whole run of digits, which the colon must follow.
\<close>

definition is_digit :: "char \<Rightarrow> bool" where
  "is_digit c = (c \<in> set ''0123456789'')"

definition is_space :: "char \<Rightarrow> bool" where
  "is_space c =
     (c \<in> set [CHR 0x09, CHR 0x0A, CHR 0x0B, CHR 0x0C, CHR 0x0D, CHR 0x20, CHR 0xA0])"

definition speakerPrefix :: "string \<Rightarrow> (string \<times> string) option" where
  "speakerPrefix t =
     (if take 8 t = ''Speaker '' then
        (case dropWhile is_digit (drop 8 t) of
           [] \<Rightarrow> None
         | c # rest \<Rightarrow>
             if takeWhile is_digit (drop 8 t) \<noteq> [] \<and> c = CHR '':''
             then Some (''Speaker '' @ takeWhile is_digit (drop 8 t), rest)
             else None)
      else None)"

definition extractSpeakerFromText :: "string \<Rightarrow> string option" where
  "extractSpeakerFromText t = map_option fst (speakerPrefix t)"

definition removeSpeakerPrefix :: "string \<Rightarrow> string" where
  "removeSpeakerPrefix t =
     (case speakerPrefix t of None \<Rightarrow> t | Some (g, rest) \<Rightarrow> dropWhile is_space rest)"

section \<open>The socket handlers of \<open>setupWebSocket\<close>\<close>

text \<open>
  The two legacy branches (\<open>data.event === "transcription"\<close> and a bare \<open>data.text\<close>) run
  the same code after their console line. \<open>data.speaker || extractSpeakerFromText(data.text)\<close>
  is evaluated in the handler, inside its \<open>try\<close>: \<open>text.match\<close> on a value that is not a
  string throws a TypeError, which the handler catches and logs. \<open>removeSpeakerPrefix(data.text)\<close>
  is evaluated in the function passed to \<open>setTranscript\<close>, which React calls outside the
  handler's \<open>try\<close>: there \<open>text.replace\<close> on a value that is not a string is an exception
  nothing catches (\<open>Inl\<close>).
\<close>

definition legacyLine :: "int \<Rightarrow> int \<Rightarrow> json \<Rightarrow> page \<Rightarrow> exn + page" where
  "legacyLine Date_now new_Date data st =
     (if truthy (property data ''speaker'') then
        (case property data ''text'' of
           Some (JStr t) \<Rightarrow>
             Inr (appendLine \<lparr>id_line = Date_now, text_line = Some (JStr (removeSpeakerPrefix t)),
                    speaker_line = property data ''speaker'', timestamp_line = Some new_Date\<rparr> st)
         | _ \<Rightarrow> Inl TypeError)
      else
        (case property data ''text'' of
           Some (JStr t) \<Rightarrow>
             Inr (appendLine \<lparr>id_line = Date_now, text_line = Some (JStr (removeSpeakerPrefix t)),
                    speaker_line = map_option JStr (extractSpeakerFromText t),
                    timestamp_line = Some new_Date\<rparr> st)
         | _ \<Rightarrow> Inr (say Error ''Error processing WebSocket message:'' st)))"

text \<open>
  The branches of \<open>onmessage\<close> on a parsed value that is not \<open>null\<close>, in the order of the
  source. \<open>Date_now\<close> is the value \<open>Date.now()\<close> returns when the line is built and
  \<open>new_Date\<close> the instant \<open>new Date()\<close> reads for its timestamp.
\<close>

definition dispatch :: "int \<Rightarrow> int \<Rightarrow> json \<Rightarrow> page \<Rightarrow> exn + page" where
  "dispatch Date_now new_Date data st =
     (if property data ''type'' = Some (JStr ''transcript'') then
        (let speakerNumber = (case property data ''speaker'' of Some (JNum n) \<Rightarrow> sint n | _ \<Rightarrow> 0);
             speakerLabel = ''Speaker '' @ number_to_string (speakerNumber + 1)
         in Inr (appendLine \<lparr>id_line = Date_now, text_line = property data ''text'',
                   speaker_line = Some (JStr speakerLabel), timestamp_line = Some new_Date\<rparr> st))
      else if property data ''type'' = Some (JStr ''analysis'') then
        (case property data ''data'' of
           None \<Rightarrow>
             Inr (say Warn ''Received analysis message with invalid data structure:'' st)
         | Some d \<Rightarrow>
             if truthy (Some d) \<and> typeof (Some d) = ''object'' then
               Inr ((say Log ''Received analysis data:'' st)
                 \<lparr>analysis :=
                    \<lparr>symptoms = or_default (property d ''symptoms'') (JArr []),
                     suggestions = or_default (property d ''suggestions'') (JArr []),
                     severity = or_default (property d ''severity'') defaultSeverity,
                     diagnoses = or_default (property d ''diagnoses'') (JArr [])\<rparr>\<rparr>)
             else Inr (say Warn ''Received analysis message with invalid data structure:'' st))
      else if property data ''type'' = Some (JStr ''error'') then
        (case template (property data ''message'') of
           None \<Rightarrow>
             Inr (say Error ''Error processing WebSocket message:''
                   (say Error ''Received error message:'' st))
         | Some m \<Rightarrow>
             Inr (setError (Some (''Error: '' @ m)) (say Error ''Received error message:'' st)))
      else if property data ''status'' = Some (JStr ''ready'')
           \<or> property data ''type'' = Some (JStr ''status'') then
        Inr (say Log ''Transcription service status:'' st)
      else if property data ''event'' = Some (JStr ''transcription'') then
        legacyLine Date_now new_Date data (say Log ''Received transcription event:'' st)
      else if truthy (property data ''text'') then
        legacyLine Date_now new_Date data (say Log ''Received text data:'' st)
      else Inr st)"

text \<open>
  \<open>newWs.onmessage\<close>. \<open>JSON_parse\<close> stands for the language's \<open>JSON.parse\<close>: \<open>None\<close> where it
  throws a SyntaxError. Reading \<open>data.type\<close> of \<open>null\<close> throws a TypeError. The handler's
  \<open>catch\<close> logs either and returns.
\<close>

definition onmessage ::
  "(string \<Rightarrow> json option) \<Rightarrow> int \<Rightarrow> int \<Rightarrow> string \<Rightarrow> page \<Rightarrow> exn + page" where
  "onmessage JSON_parse Date_now new_Date raw st =
     (if raw = ''pong'' then Inr (say Log ''Received pong from server'' st)
      else
        (case JSON_parse raw of
           None \<Rightarrow> Inr (say Error ''Error processing WebSocket message:'' st)
         | Some JNull \<Rightarrow>
             Inr (say Error ''Error processing WebSocket message:''
                   (say Log ''Received WebSocket message:'' st))
         | Some data \<Rightarrow>
             dispatch Date_now new_Date data (say Log ''Received WebSocket message:'' st)))"

definition onopen :: "page \<Rightarrow> page" where
  "onopen st = setError None (say Log ''WebSocket connection established'' st)"

definition onerror :: "page \<Rightarrow> page" where
  "onerror st =
     setError (Some ''WebSocket connection error. Please ensure the backend server is running and reachable.'')
       (say Error ''WebSocket error:'' st)"

record CloseEvent =
  code :: nat
  reason :: string
  wasClean :: bool

definition onclose :: "CloseEvent \<Rightarrow> page \<Rightarrow> page" where
  "onclose event st =
     (let st1 = say Log ''WebSocket connection closed.'' st
      in if \<not> wasClean event then setError (Some ''WebSocket connection closed unexpectedly.'') st1
         else st1)"

section \<open>Sending audio: the callback of \<open>setupAudioProcessing\<close>\<close>

definition recorderBufferSize :: nat where
  "recorderBufferSize = 4096"

text \<open>
  \<open>websocket.send(pcmData.buffer)\<close>: the socket takes the buffer, and its \<open>bufferedAmount\<close>
  grows by the buffer's length in bytes, two for each 16-bit sample.
\<close>

definition send :: "16 word list \<Rightarrow> page \<Rightarrow> page" where
  "send pcmData st =
     st\<lparr>sent := sent st @ [pcmData], bufferedAmount := bufferedAmount st + 2 * length pcmData\<rparr>"

text \<open>
  \<open>processor.onaudioprocess\<close>, with the \<open>recording\<close> flag of its closure and the socket
  handed to \<open>setupAudioProcessing\<close>:
  \<^verbatim>\<open>
  if (recording && websocket && websocket.readyState === WebSocket.OPEN) {
    ... pcmData as above ...
    if (websocket.bufferedAmount < recorderBufferSize * 2) {
        websocket.send(pcmData.buffer);
    } else {
        console.warn("WebSocket buffer full, dropping audio chunk");
    }
  }
  \<close>
\<close>

definition onaudioprocess :: "number list \<Rightarrow> page \<Rightarrow> page" where
  "onaudioprocess inputData st =
     (if recording st \<and> websocket st = Some OPEN then
        (if bufferedAmount st < recorderBufferSize * 2
         then send (encode_buffer inputData) st
         else say Warn ''WebSocket buffer full, dropping audio chunk'' st)
      else st)"

section \<open>Starting and stopping a recording\<close>

text \<open>
  What \<open>handleRecord\<close> finds around it: whether the browser has
  \<open>navigator.mediaDevices.getUserMedia\<close>, whether that call resolves with a stream, the
  configured \<open>API_BASE_URL\<close>, whether \<open>new WebSocket(wsUrl)\<close> returns, the \<open>readyState\<close> of
  the new socket at each of its readings in the order they are made (reading 0 before
  the first delay), and whether the audio graph and the \<open>MediaRecorder\<close> can be built.
\<close>

record environment =
  mediaDevices :: bool
  getUserMedia :: bool
  API_BASE_URL :: "string option"
  newWebSocket :: bool
  readyStateAt :: "nat \<Rightarrow> ready_state"
  audioGraph :: bool
  newMediaRecorder :: bool

definition getWebSocketUrl :: "string option \<Rightarrow> string option" where
  "getWebSocketUrl base =
     (case base of
        None \<Rightarrow> None
      | Some b \<Rightarrow>
          if b = [] then None
          else Some ((if take 5 b = ''https'' then ''wss'' else ''ws'') @ ''://''
                 @ (if take 8 b = ''https://'' then drop 8 b
                    else if take 7 b = ''http://'' then drop 7 b else b)
                 @ ''/ws/transcribe''))"

text \<open>
  \<open>setupWebSocket\<close>: \<open>Inl\<close> where it throws, with the state it leaves behind. A socket
  already in \<open>websocketRef\<close> is closed first. The error text \<open>Failed to connect:\<close> is
  followed in the source by the message of the exception, which is left out here.
\<close>

definition setupWebSocket :: "environment \<Rightarrow> page \<Rightarrow> page + page" where
  "setupWebSocket env st =
     (let st1 = (case websocket st of
                   None \<Rightarrow> st
                 | Some s \<Rightarrow>
                     st\<lparr>closeCalls := closeCalls st @ [(None, [])],
                        websocket := Some (if s = CLOSED then CLOSED else CLOSING)\<rparr>)
      in case getWebSocketUrl (API_BASE_URL env) of
           None \<Rightarrow>
             Inl (setError (Some ''Cannot setup WebSocket: API_BASE_URL is not configured.'')
                   (say Error ''Cannot setup WebSocket: API_BASE_URL is not configured.''
                     (say Error ''Cannot determine WebSocket URL because API_BASE_URL is not set.'' st1)))
         | Some wsUrl \<Rightarrow>
             (let st2 = say Log ''Attempting WebSocket connection to backend at''
                          (say Log ''Calculated WebSocket URL:'' st1)
              in if newWebSocket env
                 then Inr (st2\<lparr>websocket := Some (readyStateAt env 0), bufferedAmount := 0\<rparr>)
                 else Inl (setError (Some ''Failed to connect: '')
                            (say Error ''Error setting up WebSocket connection:'' st2))))"

definition MAX_RETRIES :: nat where
  "MAX_RETRIES = 30"

definition RETRY_DELAY_MS :: nat where
  "RETRY_DELAY_MS = 1000"

text \<open>
  The wait of \<open>handleRecord\<close>:
  \<^verbatim>\<open>
  let retries = MAX_RETRIES;
  while (websocket.readyState !== WebSocket.OPEN && retries > 0) {
    await new Promise(resolve => setTimeout(resolve, RETRY_DELAY_MS));
    retries--;
  }
  \<close>
  \<open>waitForOpen rs k retries\<close> is the number of the reading at which the loop ends, when it
  is entered with \<open>retries\<close> left and reading \<open>k\<close> next. One delay of \<open>RETRY_DELAY_MS\<close> lies
  between two readings, so the result is also the number of delays since reading 0.
\<close>

fun waitForOpen :: "(nat \<Rightarrow> ready_state) \<Rightarrow> nat \<Rightarrow> nat \<Rightarrow> nat" where
  "waitForOpen rs k 0 = k"
| "waitForOpen rs k (Suc retries) =
     (if rs k \<noteq> OPEN then waitForOpen rs (Suc k) retries else k)"

text \<open>The ten lines of \<open>simulateTranscription\<close>, as (text, speaker).\<close>

definition mockConversation :: "(string \<times> string) list" where
  "mockConversation =
     [(''Good morning. What brings you in today?'', ''Doctor''),
      (''Hello doctor, I've been having some headaches lately.'', ''Patient''),
      (''I'm sorry to hear that. Can you tell me more about these headaches? When do they typically occur?'', ''Doctor''),
      (''They usually start in the morning and get worse throughout the day.'', ''Patient''),
      (''Are you experiencing any other symptoms along with the headaches?'', ''Doctor''),
      (''I've also been feeling a bit dizzy sometimes.'', ''Patient''),
      (''How long have you been experiencing these symptoms?'', ''Doctor''),
      (''Yes, it's been going on for about two weeks now.'', ''Patient''),
      (''Have you tried any medications to alleviate the pain?'', ''Doctor''),
      (''I've tried taking over-the-counter pain medication but it doesn't help much.'', ''Patient'')]"

text \<open>\<open>simulateTranscription\<close> starts an interval of 2500 ms with \<open>index = 0\<close>.\<close>

definition simulateTranscription :: "page \<Rightarrow> page" where
  "simulateTranscription st =
     (say Log ''Using simulated transcription for demo'' st)\<lparr>mockInterval := Some (0, 2500)\<rparr>"

text \<open>
  One run of the interval's callback:
  \<^verbatim>\<open>
  if (index < mockConversation.length) {
    setTranscript(prev => [...prev, { id: Date.now(), text: mockConversation[index].text,
      speaker: mockConversation[index].speaker, timestamp: new Date().toISOString() }]);
    index++;
  } else {
    clearInterval(interval); setIsRecording(false); setIsProcessing(false); setRecordingDuration(0);
  }
  \<close>
  The function passed to \<open>setTranscript\<close> reads the variable \<open>index\<close> when React calls
  it. React calls it either at once (\<open>deferred = False\<close>) or when it next renders, after
  \<open>index++\<close> (\<open>deferred = True\<close>); then it reads the next entry, and past the last entry
  \<open>mockConversation[index].text\<close> throws a TypeError that nothing catches.
\<close>

definition mockLine :: "int \<Rightarrow> int \<Rightarrow> string \<times> string \<Rightarrow> TranscriptLine" where
  "mockLine Date_now new_Date m =
     \<lparr>id_line = Date_now, text_line = Some (JStr (fst m)), speaker_line = Some (JStr (snd m)),
      timestamp_line = Some new_Date\<rparr>"

definition mockTick :: "bool \<Rightarrow> int \<Rightarrow> int \<Rightarrow> page \<Rightarrow> exn + page" where
  "mockTick deferred Date_now new_Date st =
     (case mockInterval st of
        None \<Rightarrow> Inr st
      | Some (index, period) \<Rightarrow>
          if index < length mockConversation then
            (let i = (if deferred then index + 1 else index)
             in if i < length mockConversation then
                  Inr ((appendLine (mockLine Date_now new_Date (mockConversation ! i)) st)
                        \<lparr>mockInterval := Some (index + 1, period)\<rparr>)
                else Inl TypeError)
          else Inr (st\<lparr>mockInterval := None, isRecording := False, isProcessing := False,
                      recordingDuration := 0\<rparr>))"

text \<open>The \<open>catch\<close> of \<open>handleRecord\<close>.\<close>

definition recordFailed :: "page \<Rightarrow> page" where
  "recordFailed st =
     (setError (Some ''Could not access microphone or connect to transcription service. Please check permissions.'')
        (say Error ''Error accessing microphone or WebSocket:'' st))\<lparr>isRecording := False\<rparr>"

text \<open>Step 4 of \<open>handleRecord\<close>, taken when the socket is not open after the wait.\<close>

definition demoMode :: "page \<Rightarrow> page" where
  "demoMode st =
     (simulateTranscription
        ((setError (Some ''Could not connect to transcription service. Using demo mode.'')
           (say Warn ''Failed to establish WebSocket connection after retries. Using mock transcription instead.'' st))
         \<lparr>streamLive := False\<rparr>))\<lparr>isRecording := True\<rparr>"

text \<open>Step 5 and the rest: \<open>setupAudioProcessing\<close>, then the backup \<open>MediaRecorder\<close>.\<close>

definition startStreaming :: "environment \<Rightarrow> page \<Rightarrow> page" where
  "startStreaming env st =
     (let st1 = say Log ''Setting up audio processing with Deepgram-friendly format'' st
      in if \<not> audioGraph env
         then recordFailed (say Error ''Error setting up audio processing:'' st1)
         else
           (let st2 = (say Log ''Audio processing pipeline set up successfully''
                        (say Log ''Creating audio processor node'' st1))
                      \<lparr>audioContext := True, processorNode := True, recording := True\<rparr>
            in if \<not> newMediaRecorder env then recordFailed st2
               else (say Log ''Real-time streaming transcription started...''
                      (st2\<lparr>mediaRecorder := True\<rparr>))\<lparr>isRecording := True\<rparr>))"

text \<open>
  \<open>handleRecord\<close>, as one step from the click to its return. Handlers of the socket that
  run during the delays are events of their own (below).
\<close>

definition handleRecord :: "environment \<Rightarrow> page \<Rightarrow> page" where
  "handleRecord env st0 =
     (let st = (setError None st0)\<lparr>recordingDuration := 0\<rparr>
      in if \<not> mediaDevices env
         then setError (Some ''Audio recording is not supported by this browser.'') st
         else if \<not> getUserMedia env then recordFailed st
         else
           (case setupWebSocket env (st\<lparr>streamLive := True\<rparr>) of
              Inl st1 \<Rightarrow> recordFailed st1
            | Inr st1 \<Rightarrow>
                (let k = waitForOpen (readyStateAt env) 0 MAX_RETRIES;
                     st2 = st1\<lparr>console := console st1
                                   @ replicate k (Log, ''Waiting for WebSocket connection''),
                               websocket := Some (readyStateAt env k)\<rparr>
                 in if readyStateAt env k \<noteq> OPEN then demoMode st2
                    else startStreaming env st2)))"

text \<open>
  \<open>handleStop\<close>. The timer of the recording badge is outside the model. The timeout it
  sets (1500 ms) ends the processing state.
\<close>

definition handleStop :: "page \<Rightarrow> page" where
  "handleStop st =
     (if isRecording st then
        (let st1 = say Log ''Recording stopped explicitly...'' (st\<lparr>isRecording := False\<rparr>);
             st2 = (if mediaRecorder st1
                    then st1\<lparr>mediaRecorder := False, streamLive := False\<rparr> else st1);
             st3 = (if websocket st2 = Some OPEN
                    then (say Log ''Closing WebSocket from client after stopping recording.'' st2)
                           \<lparr>closeCalls := closeCalls st2 @ [(Some 1000, ''Client stopped recording'')],
                            websocket := Some CLOSING\<rparr>
                    else st2)
         in st3\<lparr>processorNode := False, audioContext := False, activeTab := ''analysis'',
                isProcessing := True\<rparr>)
      else st)"

definition stopTimeout :: "page \<Rightarrow> page" where
  "stopTimeout st =
     say Log ''Analysis complete. Ready to generate report!'' (st\<lparr>isProcessing := False\<rparr>)"

section \<open>Events of a session\<close>

text \<open>
  What can happen to the page after a recording was started, until the next one is: the
  socket opens, fails, closes or delivers a text message; the network takes bytes out of
  the socket's buffer; the processor node, while it is connected, delivers a buffer of
  samples; the interval of the simulation fires; the user stops the recording; the
  timeout of the stop fires.
\<close>

datatype event =
    WsOpen
  | WsError
  | WsClose CloseEvent
  | WsMessage string int int
  | WsDrain nat
  | AudioProcess "number list"
  | MockTick bool int int
  | StopClick
  | StopTimeout

fun step :: "(string \<Rightarrow> json option) \<Rightarrow> event \<Rightarrow> page \<Rightarrow> exn + page" where
  "step JSON_parse WsOpen st =
     Inr (if websocket st = Some CONNECTING then onopen (st\<lparr>websocket := Some OPEN\<rparr>) else st)"
| "step JSON_parse WsError st = Inr (if websocket st = None then st else onerror st)"
| "step JSON_parse (WsClose ev) st =
     Inr (if websocket st = None then st else onclose ev (st\<lparr>websocket := Some CLOSED\<rparr>))"
| "step JSON_parse (WsMessage raw Date_now new_Date) st =
     (if websocket st = Some OPEN then onmessage JSON_parse Date_now new_Date raw st else Inr st)"
| "step JSON_parse (WsDrain n) st = Inr (st\<lparr>bufferedAmount := bufferedAmount st - n\<rparr>)"
| "step JSON_parse (AudioProcess inputData) st =
     Inr (if processorNode st then onaudioprocess inputData st else st)"
| "step JSON_parse (MockTick deferred Date_now new_Date) st = mockTick deferred Date_now new_Date st"
| "step JSON_parse StopClick st = Inr (handleStop st)"
| "step JSON_parse StopTimeout st = Inr (stopTimeout st)"

fun run :: "(string \<Rightarrow> json option) \<Rightarrow> event list \<Rightarrow> page \<Rightarrow> exn + page" where
  "run JSON_parse [] st = Inr st"
| "run JSON_parse (e # es) st =
     (case step JSON_parse e st of Inl x \<Rightarrow> Inl x | Inr st1 \<Rightarrow> run JSON_parse es st1)"

section \<open>The encoder truncates\<close>

lemma trunc_clamp_bounds:
  "- 32767 \<le> trunc_rat (max (- 1) (min 1 x) * 32767)
   \<and> trunc_rat (max (- 1) (min 1 x) * 32767) \<le> 32767"
proof -
  let ?v = "max (- 1) (min 1 x) * 32767"
  have lo: "- 32767 \<le> ?v" and hi: "?v \<le> 32767" by (simp_all add: max_def min_def)
  show ?thesis
  proof (cases "0 \<le> ?v")
    case True
    then have "trunc_rat ?v = \<lfloor>?v\<rfloor>" by (simp add: trunc_rat_def)
    moreover have "\<lfloor>?v\<rfloor> \<le> 32767" using hi by (simp add: floor_le_iff)
    moreover have "0 \<le> \<lfloor>?v\<rfloor>" using True by simp
    ultimately show ?thesis by simp
  next
    case False
    then have "trunc_rat ?v = \<lceil>?v\<rceil>" by (simp add: trunc_rat_def)
    moreover have "- 32767 \<le> \<lceil>?v\<rceil>" using lo by (simp add: le_ceiling_iff)
    moreover have "\<lceil>?v\<rceil> \<le> 0" using False by (simp add: ceiling_le_iff)
    ultimately show ?thesis by simp
  qed
qed

lemma encode_sample_Finite:
  "encode_sample (Finite x) = word_of_int (trunc_rat (max (- 1) (min 1 x) * 32767))"
  by (simp add: encode_sample_def ToInt16_def)

text \<open>
  C1, against the claim as stated. The sample \<open>1/8\<close> scales to \<open>4095.875\<close>. The nearest
  integer is 4096; the encoder stores 4095, because the store into the \<open>Int16Array\<close>
  drops the fraction and the source never rounds.
\<close>

theorem encode_sample_round_counterexample:
  "sint (encode_sample (Finite (1 / 8))) \<noteq> spec_encode (1 / 8)"
  by code_simp

text \<open>
  C1, amended. For every finite sample \<open>x\<close> the encoder produces
  \<open>clamp(x,-1,1) * 32767\<close> with its fraction dropped (rounded towards zero), a value
  between \<open>-32767\<close> and \<open>32767\<close>, so the reduction to 16 bits never wraps. The boundary
  values encode as \<open>-1.0\<close> to \<open>-32767\<close>, \<open>0\<close> to \<open>0\<close> and \<open>1.0\<close> to \<open>32767\<close>; the infinities
  encode as the boundaries and NaN as 0.
\<close>

theorem encode_sample_truncates:
  "sint (encode_sample (Finite x)) = trunc_rat (max (- 1) (min 1 x) * 32767)
   \<and> - 32767 \<le> sint (encode_sample (Finite x))
   \<and> sint (encode_sample (Finite x)) \<le> 32767
   \<and> sint (encode_sample (Finite (- 1))) = - 32767
   \<and> sint (encode_sample (Finite 0)) = 0
   \<and> sint (encode_sample (Finite 1)) = 32767
   \<and> sint (encode_sample PosInf) = 32767
   \<and> sint (encode_sample NegInf) = - 32767
   \<and> sint (encode_sample NaN) = 0"
proof -
  have eq: "sint (encode_sample (Finite y)) = trunc_rat (max (- 1) (min 1 y) * 32767)" for y
    using trunc_clamp_bounds [of y] by (simp add: encode_sample_Finite int_word_sint)
  have inf: "encode_sample PosInf = encode_sample (Finite 1)"
    "encode_sample NegInf = encode_sample (Finite (- 1))" "encode_sample NaN = 0"
    by (simp_all add: encode_sample_def ToInt16_def)
  have b: "trunc_rat (- 32767) = - 32767" "trunc_rat 0 = 0" "trunc_rat 32767 = 32767"
    by (simp_all add: trunc_rat_def)
  show ?thesis
    using trunc_clamp_bounds [of x] by (simp add: eq inf b)
qed

section \<open>The message dispatcher\<close>

lemma number_to_string_examples:
  "number_to_string 1 = ''1''" "number_to_string 2 = ''2''" "number_to_string 10 = ''10''"
  "number_to_string 123 = ''123''" "number_to_string 0 = ''0''" "number_to_string (- 4) = ''-4''"
  by (simp_all add: number_to_string_def digits.simps digit_def)

text \<open>
  C2, the code at a failing input. Two \<open>transcript\<close> messages are handled while
  \<open>Date.now()\<close> returns the same millisecond. Both appended lines carry that value as
  their identifier, so the identifiers are neither unique nor strictly increasing.
\<close>

theorem transcript_ids_same_millisecond:
  "(case dispatch 1700000000000 1700000000000
           (JObj [(''type'', JStr ''transcript''), (''text'', JStr ''a''), (''speaker'', JNum 0)])
           initialPage of
      Inl e \<Rightarrow> []
    | Inr st1 \<Rightarrow>
        (case dispatch 1700000000000 1700000000000
                (JObj [(''type'', JStr ''transcript''), (''text'', JStr ''b''), (''speaker'', JNum 0)])
                st1 of
           Inl e \<Rightarrow> []
         | Inr st2 \<Rightarrow> map id_line (transcript st2)))
   = [1700000000000, 1700000000000]"
  by (simp add: dispatch_def appendLine_def initialPage_def)

text \<open>
  C5. A message of type \<open>analysis\<close> whose \<open>data\<close> is an object (truthy, and \<open>typeof\<close> says
  \<open>object\<close>; an array is one too) is handled without an exception and sets a new snapshot.
  Each sub-field that is missing gets its default: \<open>[]\<close> for \<open>symptoms\<close>, \<open>suggestions\<close>
  and \<open>diagnoses\<close>, \<open>{level: "Low", rationale: ""}\<close> for \<open>severity\<close>. Each sub-field that
  is present and truthy is taken as it is. The new snapshot does not depend on the
  previous one: it is a replacement, not a merge. Transcript and error state stay.
\<close>

theorem analysis_message_replaces_snapshot:
  assumes "property data ''type'' = Some (JStr ''analysis'')"
    and "property data ''data'' = Some d"
    and "truthy (Some d)"
    and "typeof (Some d) = ''object''"
  shows "\<exists>st'. dispatch Date_now new_Date data st = Inr st'
      \<and> (property d ''symptoms'' = None \<longrightarrow> symptoms (analysis st') = JArr [])
      \<and> (property d ''suggestions'' = None \<longrightarrow> suggestions (analysis st') = JArr [])
      \<and> (property d ''severity'' = None \<longrightarrow>
            severity (analysis st') = JObj [(''level'', JStr ''Low''), (''rationale'', JStr '''')])
      \<and> (property d ''diagnoses'' = None \<longrightarrow> diagnoses (analysis st') = JArr [])
      \<and> (\<forall>v. property d ''symptoms'' = Some v \<and> truthy (Some v) \<longrightarrow> symptoms (analysis st') = v)
      \<and> (\<forall>v. property d ''suggestions'' = Some v \<and> truthy (Some v) \<longrightarrow>
               suggestions (analysis st') = v)
      \<and> (\<forall>v. property d ''severity'' = Some v \<and> truthy (Some v) \<longrightarrow> severity (analysis st') = v)
      \<and> (\<forall>v. property d ''diagnoses'' = Some v \<and> truthy (Some v) \<longrightarrow> diagnoses (analysis st') = v)
      \<and> (\<forall>a. \<exists>st''. dispatch Date_now new_Date data (st\<lparr>analysis := a\<rparr>) = Inr st''
               \<and> analysis st'' = analysis st')
      \<and> transcript st' = transcript st \<and> error st' = error st"
proof -
  let ?new = "\<lparr>symptoms = or_default (property d ''symptoms'') (JArr []),
               suggestions = or_default (property d ''suggestions'') (JArr []),
               severity = or_default (property d ''severity'') defaultSeverity,
               diagnoses = or_default (property d ''diagnoses'') (JArr [])\<rparr>"
  have run: "dispatch Date_now new_Date data s
               = Inr ((say Log ''Received analysis data:'' s)\<lparr>analysis := ?new\<rparr>)" for s
    using assms by (simp add: dispatch_def)
  show ?thesis
    unfolding run by (simp add: say_def defaultSeverity_def)
qed

text \<open>
  Witness for C5: an analysis message with \<open>symptoms\<close> and without \<open>severity\<close>.
\<close>

theorem analysis_message_replaces_snapshot_witness:
  "\<exists>st'. dispatch 5 6
       (JObj [(''type'', JStr ''analysis''),
              (''data'', JObj [(''symptoms'',
                 JArr [JObj [(''description'', JStr ''headache''), (''is_primary'', JBool True)]])])])
       initialPage = Inr st'
     \<and> symptoms (analysis st')
         = JArr [JObj [(''description'', JStr ''headache''), (''is_primary'', JBool True)]]
     \<and> severity (analysis st') = JObj [(''level'', JStr ''Low''), (''rationale'', JStr '''')]"
  using analysis_message_replaces_snapshot
    [of "JObj [(''type'', JStr ''analysis''),
              (''data'', JObj [(''symptoms'',
                 JArr [JObj [(''description'', JStr ''headache''), (''is_primary'', JBool True)]])])]"
        "JObj [(''symptoms'',
                 JArr [JObj [(''description'', JStr ''headache''), (''is_primary'', JBool True)]])]"
        5 6 initialPage]
  by auto

text \<open>
  The digits that number-to-string conversion prints for a natural number: at least
  one, all decimal digits, no leading zero for a positive number, and they denote the
  number.
\<close>

lemma below_ten:
  "d < 10 \<Longrightarrow> d = 0 \<or> d = 1 \<or> d = 2 \<or> d = 3 \<or> d = 4 \<or> d = 5 \<or> d = 6 \<or> d = 7
     \<or> d = 8 \<or> d = (9::nat)"
  by arith

lemma of_char_digit: "d < 10 \<Longrightarrow> of_char (digit d) = (48 + d :: nat)"
  by (drule below_ten) (auto simp: digit_def)

lemma digit_in_digits: "d < 10 \<Longrightarrow> digit d \<in> set ''0123456789''"
  by (drule below_ten) (auto simp: digit_def)

lemma digit_zero_iff: "d < 10 \<Longrightarrow> digit d = CHR ''0'' \<longleftrightarrow> d = 0"
  by (drule below_ten) (auto simp: digit_def)

lemma digits_nonempty: "digits n \<noteq> []"
  by (subst digits.simps) simp

lemma digits_set: "set (digits n) \<subseteq> set ''0123456789''"
proof (induction n rule: digits.induct)
  case (1 n)
  show ?case
  proof (cases "n < 10")
    case True
    then show ?thesis using digit_in_digits [of n] by (subst digits.simps) simp
  next
    case False
    have "n mod 10 < 10" by simp
    then have "digit (n mod 10) \<in> set ''0123456789''" by (rule digit_in_digits)
    with False "1.IH" show ?thesis by (subst digits.simps) simp
  qed
qed

lemma decimal_value_snoc:
  "decimal_value (ds @ [c]) = 10 * decimal_value ds + (of_char c - 48)"
  by (simp add: decimal_value_def)

lemma digits_value: "decimal_value (digits n) = n"
proof (induction n rule: digits.induct)
  case (1 n)
  show ?case
  proof (cases "n < 10")
    case True
    then show ?thesis
      by (subst digits.simps) (simp add: decimal_value_def of_char_digit)
  next
    case False
    have "n mod 10 < 10" by simp
    then have "of_char (digit (n mod 10)) = (48 + n mod 10 :: nat)" by (rule of_char_digit)
    with False "1.IH" show ?thesis
      by (subst digits.simps) (simp add: decimal_value_snoc)
  qed
qed

lemma digits_hd: "0 < n \<Longrightarrow> hd (digits n) \<noteq> CHR ''0''"
proof (induction n rule: digits.induct)
  case (1 n)
  show ?case
  proof (cases "n < 10")
    case True
    then show ?thesis using "1.prems" digit_zero_iff [of n] by (subst digits.simps) simp
  next
    case False
    then have "0 < n div 10" by simp
    with False "1.IH" have "hd (digits (n div 10)) \<noteq> CHR ''0''" by simp
    with False show ?thesis by (subst digits.simps) (simp add: digits_nonempty)
  qed
qed

lemma sint_safe_integer:
  "- (2 ^ 53) \<le> n \<Longrightarrow> n < 2 ^ 53 \<Longrightarrow> sint (word_of_int n :: safe_integer) = n"
  by (simp add: int_word_sint)

text \<open>
  C6. A message of type \<open>transcript\<close> whose \<open>speaker\<close> is the zero-based integer \<open>n\<close>
  (below \<open>2^53\<close>, so that \<open>n + 1\<close> is exact) appends exactly one line to the transcript,
  and the speaker of that line is the label \<open>Speaker\<close>, a space, and \<open>n + 1\<close> in decimal:
  a non-empty string of decimal digits with no leading zero that denotes \<open>n + 1\<close>.
\<close>

theorem transcript_message_speaker_label:
  assumes "property data ''type'' = Some (JStr ''transcript'')"
    and "property data ''speaker'' = Some (JNum (word_of_int n))"
    and "0 \<le> n" and "n < 2 ^ 53"
  shows "dispatch Date_now new_Date data st
           = Inr (st\<lparr>transcript := transcript st
                     @ [\<lparr>id_line = Date_now, text_line = property data ''text'',
                         speaker_line = Some (JStr (''Speaker '' @ number_to_string (n + 1))),
                         timestamp_line = Some new_Date\<rparr>]\<rparr>)
         \<and> number_to_string (n + 1) \<noteq> []
         \<and> set (number_to_string (n + 1)) \<subseteq> set ''0123456789''
         \<and> hd (number_to_string (n + 1)) \<noteq> CHR ''0''
         \<and> int (decimal_value (number_to_string (n + 1))) = n + 1"
proof -
  have s: "sint (word_of_int n :: safe_integer) = n"
    using assms(3,4) by (intro sint_safe_integer) simp_all
  have d: "number_to_string (n + 1) = digits (nat (n + 1))"
    using assms(3) by (simp add: number_to_string_def)
  have p: "0 < nat (n + 1)" using assms(3) by simp
  have "dispatch Date_now new_Date data st
           = Inr (st\<lparr>transcript := transcript st
                     @ [\<lparr>id_line = Date_now, text_line = property data ''text'',
                         speaker_line = Some (JStr (''Speaker '' @ number_to_string (n + 1))),
                         timestamp_line = Some new_Date\<rparr>]\<rparr>)"
    using assms(1,2) by (simp add: dispatch_def appendLine_def s)
  moreover have "int (decimal_value (digits (nat (n + 1)))) = n + 1"
    using assms(3) by (simp add: digits_value)
  ultimately show ?thesis
    using digits_nonempty digits_set digits_hd [OF p] unfolding d by blast
qed

text \<open>
  Witness for C6: speaker index 0 yields the label \<open>Speaker 1\<close>, and speaker index 11
  the label \<open>Speaker 12\<close>.
\<close>

theorem transcript_message_speaker_label_witness:
  "dispatch 1700000000000 1700000000001
          (JObj [(''type'', JStr ''transcript''), (''text'', JStr ''Hello''), (''speaker'', JNum 0)])
          initialPage
        = Inr (initialPage\<lparr>transcript := transcript initialPage
                  @ [\<lparr>id_line = 1700000000000, text_line = Some (JStr ''Hello''),
                      speaker_line = Some (JStr ''Speaker 1''),
                      timestamp_line = Some 1700000000001\<rparr>]\<rparr>)
   \<and> dispatch 1700000000002 1700000000003
          (JObj [(''type'', JStr ''transcript''), (''text'', JStr ''Hi''), (''speaker'', JNum 11)])
          initialPage
        = Inr (initialPage\<lparr>transcript := transcript initialPage
                  @ [\<lparr>id_line = 1700000000002, text_line = Some (JStr ''Hi''),
                      speaker_line = Some (JStr ''Speaker 12''),
                      timestamp_line = Some 1700000000003\<rparr>]\<rparr>)"
  using transcript_message_speaker_label
    [of "JObj [(''type'', JStr ''transcript''), (''text'', JStr ''Hello''), (''speaker'', JNum 0)]"
        0 1700000000000 1700000000001 initialPage]
    transcript_message_speaker_label
    [of "JObj [(''type'', JStr ''transcript''), (''text'', JStr ''Hi''), (''speaker'', JNum 11)]"
        11 1700000000002 1700000000003 initialPage]
  by (simp add: number_to_string_def digits.simps digit_def)

text \<open>
  C8. A text message that \<open>JSON.parse\<close> rejects is logged and dropped: the handler
  returns normally and the state is the one before but for one more console entry, so
  transcript, analysis, error state, recording state and socket are unchanged. A message
  other than \<open>pong\<close> is logged as an error. The frame \<open>pong\<close> is logged as a liveness
  reply whatever \<open>JSON.parse\<close> would make of it: the parser is not consulted.
\<close>

theorem onmessage_unparseable_dropped:
  "(JSON_parse raw = None \<longrightarrow>
      (\<exists>entry. onmessage JSON_parse Date_now new_Date raw st
                  = Inr (st\<lparr>console := console st @ [entry]\<rparr>)))
   \<and> (raw \<noteq> ''pong'' \<and> JSON_parse raw = None \<longrightarrow>
        onmessage JSON_parse Date_now new_Date raw st
          = Inr (st\<lparr>console := console st @ [(Error, ''Error processing WebSocket message:'')]\<rparr>))
   \<and> onmessage JSON_parse Date_now new_Date ''pong'' st
        = Inr (st\<lparr>console := console st @ [(Log, ''Received pong from server'')]\<rparr>)"
  by (auto simp: onmessage_def say_def)

text \<open>
  Witness for C8: a text that is not JSON, and \<open>pong\<close> under a parser that would accept
  anything.
\<close>

theorem onmessage_unparseable_dropped_witness:
  "onmessage (\<lambda>raw. None) 5 6 ''{type:'' initialPage
     = Inr (initialPage\<lparr>console := console initialPage
              @ [(Error, ''Error processing WebSocket message:'')]\<rparr>)
   \<and> onmessage (\<lambda>raw. Some (JObj [(''type'', JStr ''transcript'')])) 5 6 ''pong'' initialPage
     = Inr (initialPage\<lparr>console := console initialPage @ [(Log, ''Received pong from server'')]\<rparr>)"
  using onmessage_unparseable_dropped [of "\<lambda>raw. None" "''{type:''" 5 6 initialPage]
    onmessage_unparseable_dropped
      [of "\<lambda>raw. Some (JObj [(''type'', JStr ''transcript'')])" "''pong''" 5 6 initialPage]
  by simp

text \<open>
  C9. A message of type \<open>transcript\<close> whose \<open>speaker\<close> is absent or not a number
  (\<open>typeof\<close> does not say \<open>number\<close>) appends one line with the label \<open>Speaker 1\<close>: the
  speaker index defaults to 0.
\<close>

theorem transcript_message_default_speaker:
  assumes "property data ''type'' = Some (JStr ''transcript'')"
    and "typeof (property data ''speaker'') \<noteq> ''number''"
  shows "dispatch Date_now new_Date data st
           = Inr (st\<lparr>transcript := transcript st
                     @ [\<lparr>id_line = Date_now, text_line = property data ''text'',
                         speaker_line = Some (JStr ''Speaker 1''),
                         timestamp_line = Some new_Date\<rparr>]\<rparr>)"
proof -
  have "(case property data ''speaker'' of Some (JNum n) \<Rightarrow> sint n | _ \<Rightarrow> 0) = 0"
    using assms(2) by (auto split: option.splits json.splits)
  moreover have "number_to_string 1 = ''1''"
    by (simp add: number_to_string_def digits.simps digit_def)
  ultimately show ?thesis
    using assms(1) by (simp add: dispatch_def appendLine_def)
qed

text \<open>Witness for C9: the speaker is the string \<open>"2"\<close>, not a number.\<close>

theorem transcript_message_default_speaker_witness:
  "dispatch 5 6
      (JObj [(''type'', JStr ''transcript''), (''text'', JStr ''Hi''), (''speaker'', JStr ''2'')])
      initialPage
     = Inr (initialPage\<lparr>transcript := transcript initialPage
              @ [\<lparr>id_line = 5, text_line = Some (JStr ''Hi''),
                  speaker_line = Some (JStr ''Speaker 1''), timestamp_line = Some 6\<rparr>]\<rparr>)"
  using transcript_message_default_speaker
    [of "JObj [(''type'', JStr ''transcript''), (''text'', JStr ''Hi''), (''speaker'', JStr ''2'')]"
        5 6 initialPage]
  by simp

text \<open>
  C10. A message of type \<open>analysis\<close> whose \<open>data\<close> is missing, \<open>null\<close>, or a value for
  which \<open>typeof\<close> does not say \<open>object\<close> leaves the state as it was but for one warning
  on the console; in particular the analysis snapshot is unchanged, with no partial
  replacement and no defaults.
\<close>

theorem analysis_message_invalid_data_ignored:
  assumes "property data ''type'' = Some (JStr ''analysis'')"
    and "property data ''data'' = None \<or> property data ''data'' = Some JNull
         \<or> typeof (property data ''data'') \<noteq> ''object''"
  shows "dispatch Date_now new_Date data st
           = Inr (st\<lparr>console := console st
                     @ [(Warn, ''Received analysis message with invalid data structure:'')]\<rparr>)
         \<and> analysis (st\<lparr>console := console st
                     @ [(Warn, ''Received analysis message with invalid data structure:'')]\<rparr>)
           = analysis st"
  using assms by (auto simp: dispatch_def say_def split: option.splits)

text \<open>Witness for C10: \<open>data\<close> is a string.\<close>

theorem analysis_message_invalid_data_ignored_witness:
  "dispatch 5 6 (JObj [(''type'', JStr ''analysis''), (''data'', JStr ''oops'')]) initialPage
     = Inr (initialPage\<lparr>console := console initialPage
              @ [(Warn, ''Received analysis message with invalid data structure:'')]\<rparr>)"
  using analysis_message_invalid_data_ignored
    [of "JObj [(''type'', JStr ''analysis''), (''data'', JStr ''oops'')]" 5 6 initialPage]
  by simp

section \<open>Closing the socket\<close>

text \<open>
  C7, against the claim as stated. The relay closes the channel with the server-error
  code 1011 and the closing handshake completes: the closure code is not the normal
  one, the event is clean, and the handler sets no error state.
\<close>

theorem onclose_clean_abnormal_code_counterexample:
  "code \<lparr>code = 1011, reason = ''upstream unavailable'', wasClean = True\<rparr> \<noteq> 1000
   \<and> error (onclose \<lparr>code = 1011, reason = ''upstream unavailable'', wasClean = True\<rparr>
              initialPage) = None"
  by (simp add: onclose_def say_def initialPage_def)

text \<open>
  C7, amended. The close handler sets the connection-lost error state exactly when the
  close event is not clean (\<open>wasClean\<close> is false), whatever its closure code; otherwise it
  leaves the error state as it was. \<open>handleStop\<close>, on a recording page with an open
  socket, closes the socket with code 1000 and sets no error state, and the clean close
  event that follows sets none either.
\<close>

theorem onclose_sets_error_iff_not_clean:
  "error (onclose event st)
     = (if wasClean event then error st else Some ''WebSocket connection closed unexpectedly.'')
   \<and> (isRecording st \<and> websocket st = Some OPEN \<longrightarrow>
        closeCalls (handleStop st) = closeCalls st @ [(Some 1000, ''Client stopped recording'')]
        \<and> error (handleStop st) = error st
        \<and> (wasClean event \<longrightarrow> error (onclose event (handleStop st)) = error st))"
  by (simp add: onclose_def say_def setError_def handleStop_def Let_def)

text \<open>
  Witness for C7: a recording page with an open socket is stopped, and the close event
  with code 1000 arrives clean.
\<close>

theorem onclose_sets_error_iff_not_clean_witness:
  "isRecording (initialPage\<lparr>isRecording := True, websocket := Some OPEN\<rparr>)
   \<and> websocket (initialPage\<lparr>isRecording := True, websocket := Some OPEN\<rparr>) = Some OPEN
   \<and> closeCalls (handleStop (initialPage\<lparr>isRecording := True, websocket := Some OPEN\<rparr>))
       = [(Some 1000, ''Client stopped recording'')]
   \<and> error (onclose \<lparr>code = 1000, reason = ''Client stopped recording'', wasClean = True\<rparr>
              (handleStop (initialPage\<lparr>isRecording := True, websocket := Some OPEN\<rparr>))) = None"
  using onclose_sets_error_iff_not_clean
    [of "\<lparr>code = 1000, reason = ''Client stopped recording'', wasClean = True\<rparr>"
        "initialPage\<lparr>isRecording := True, websocket := Some OPEN\<rparr>"]
  by (simp add: initialPage_def)

section \<open>What the handlers leave alone\<close>

lemma say_fields [simp]:
  "transcript (say l m st) = transcript st" "analysis (say l m st) = analysis st"
  "error (say l m st) = error st" "sent (say l m st) = sent st"
  "processorNode (say l m st) = processorNode st" "websocket (say l m st) = websocket st"
  "bufferedAmount (say l m st) = bufferedAmount st" "recording (say l m st) = recording st"
  "mockInterval (say l m st) = mockInterval st" "isRecording (say l m st) = isRecording st"
  "streamLive (say l m st) = streamLive st" "closeCalls (say l m st) = closeCalls st"
  "mediaRecorder (say l m st) = mediaRecorder st"
  by (simp_all add: say_def)

lemma setError_fields [simp]:
  "transcript (setError e st) = transcript st" "analysis (setError e st) = analysis st"
  "error (setError e st) = e" "sent (setError e st) = sent st"
  "processorNode (setError e st) = processorNode st" "websocket (setError e st) = websocket st"
  "bufferedAmount (setError e st) = bufferedAmount st" "recording (setError e st) = recording st"
  "mockInterval (setError e st) = mockInterval st" "isRecording (setError e st) = isRecording st"
  "streamLive (setError e st) = streamLive st" "closeCalls (setError e st) = closeCalls st"
  "mediaRecorder (setError e st) = mediaRecorder st"
  by (simp_all add: setError_def)

lemma appendLine_fields [simp]:
  "transcript (appendLine l st) = transcript st @ [l]" "analysis (appendLine l st) = analysis st"
  "error (appendLine l st) = error st" "sent (appendLine l st) = sent st"
  "processorNode (appendLine l st) = processorNode st" "websocket (appendLine l st) = websocket st"
  "bufferedAmount (appendLine l st) = bufferedAmount st" "recording (appendLine l st) = recording st"
  "mockInterval (appendLine l st) = mockInterval st" "isRecording (appendLine l st) = isRecording st"
  by (simp_all add: appendLine_def)

lemma legacyLine_devices:
  "legacyLine t s data st = Inr st' \<Longrightarrow>
     processorNode st' = processorNode st \<and> sent st' = sent st
     \<and> bufferedAmount st' = bufferedAmount st \<and> websocket st' = websocket st"
  by (auto simp: legacyLine_def split: if_splits option.splits json.splits)

lemma dispatch_devices:
  "dispatch t s data st = Inr st' \<Longrightarrow>
     processorNode st' = processorNode st \<and> sent st' = sent st
     \<and> bufferedAmount st' = bufferedAmount st \<and> websocket st' = websocket st"
  unfolding dispatch_def Let_def
  by (auto split: if_splits option.splits dest!: legacyLine_devices)

lemma onmessage_devices:
  "onmessage P t s raw st = Inr st' \<Longrightarrow>
     processorNode st' = processorNode st \<and> sent st' = sent st
     \<and> bufferedAmount st' = bufferedAmount st \<and> websocket st' = websocket st"
  unfolding onmessage_def
  by (auto split: if_splits option.splits json.splits dest!: dispatch_devices)

lemma mockTick_devices:
  "mockTick d t s st = Inr st' \<Longrightarrow>
     processorNode st' = processorNode st \<and> sent st' = sent st
     \<and> bufferedAmount st' = bufferedAmount st \<and> websocket st' = websocket st"
  by (auto simp: mockTick_def Let_def split: if_splits option.splits prod.splits)

lemma handleStop_devices:
  "sent (handleStop st) = sent st" "bufferedAmount (handleStop st) = bufferedAmount st"
  by (simp_all add: handleStop_def Let_def)

lemma handleStop_processor: "\<not> processorNode st \<Longrightarrow> \<not> processorNode (handleStop st)"
  by (simp add: handleStop_def Let_def)

text \<open>
  While no processor node is connected, no event connects one and no event hands a
  buffer to the socket.
\<close>

lemma step_no_processor:
  assumes "step P e st = Inr st'" and "\<not> processorNode st"
  shows "\<not> processorNode st' \<and> sent st' = sent st"
proof (cases e)
  case WsOpen
  with assms show ?thesis by (auto simp: onopen_def split: if_splits)
next
  case WsError
  with assms show ?thesis by (auto simp: onerror_def split: if_splits)
next
  case (WsClose ev)
  with assms show ?thesis by (auto simp: onclose_def Let_def split: if_splits)
next
  case (WsMessage raw t s)
  with assms show ?thesis by (auto split: if_splits dest!: onmessage_devices)
next
  case (WsDrain n)
  with assms show ?thesis by auto
next
  case (AudioProcess inputData)
  with assms show ?thesis by (auto split: if_splits)
next
  case (MockTick d t s)
  with assms show ?thesis by (auto dest!: mockTick_devices)
next
  case StopClick
  with assms show ?thesis by (auto simp: handleStop_devices handleStop_processor)
next
  case StopTimeout
  with assms show ?thesis by (auto simp: stopTimeout_def)
qed

lemma run_no_processor:
  "run P evs st = Inr st' \<Longrightarrow> \<not> processorNode st \<Longrightarrow> \<not> processorNode st' \<and> sent st' = sent st"
proof (induction evs arbitrary: st)
  case Nil
  then show ?case by simp
next
  case (Cons e evs)
  from Cons.prems(1) obtain st1 where s: "step P e st = Inr st1" and r: "run P evs st1 = Inr st'"
    by (auto split: sum.splits)
  from step_no_processor [OF s Cons.prems(2)] Cons.IH [OF r] show ?case by simp
qed

text \<open>
  The socket's buffer stays below two thresholds: a buffer of at most
  \<open>recorderBufferSize\<close> samples is handed over only below one threshold, and adds at most
  one more.
\<close>

lemma step_bufferedAmount:
  assumes "step P e st = Inr st'"
    and "bufferedAmount st < 2 * (recorderBufferSize * 2)"
    and "\<forall>x. e = AudioProcess x \<longrightarrow> length x \<le> recorderBufferSize"
  shows "bufferedAmount st' < 2 * (recorderBufferSize * 2)"
proof (cases e)
  case WsOpen
  with assms show ?thesis by (auto simp: onopen_def split: if_splits)
next
  case WsError
  with assms show ?thesis by (auto simp: onerror_def split: if_splits)
next
  case (WsClose ev)
  with assms show ?thesis by (auto simp: onclose_def Let_def split: if_splits)
next
  case (WsMessage raw t s)
  with assms show ?thesis by (auto split: if_splits dest!: onmessage_devices)
next
  case (WsDrain n)
  with assms show ?thesis by auto
next
  case (AudioProcess inputData)
  with assms show ?thesis
    by (auto simp: onaudioprocess_def send_def encode_buffer_def split: if_splits)
next
  case (MockTick d t s)
  with assms show ?thesis by (auto dest!: mockTick_devices)
next
  case StopClick
  with assms show ?thesis by (auto simp: handleStop_devices)
next
  case StopTimeout
  with assms show ?thesis by (auto simp: stopTimeout_def say_def)
qed

lemma run_bufferedAmount:
  "run P evs st = Inr st' \<Longrightarrow> bufferedAmount st < 2 * (recorderBufferSize * 2) \<Longrightarrow>
     (\<forall>x. AudioProcess x \<in> set evs \<longrightarrow> length x \<le> recorderBufferSize) \<Longrightarrow>
     bufferedAmount st' < 2 * (recorderBufferSize * 2)"
proof (induction evs arbitrary: st)
  case Nil
  then show ?case by simp
next
  case (Cons e evs)
  from Cons.prems(1) obtain st1 where s: "step P e st = Inr st1" and r: "run P evs st1 = Inr st'"
    by (auto split: sum.splits)
  have "bufferedAmount st1 < 2 * (recorderBufferSize * 2)"
    using step_bufferedAmount [OF s Cons.prems(2)] Cons.prems(3) by simp
  then show ?case using Cons.IH [OF r] Cons.prems(3) by simp
qed

section \<open>Backpressure\<close>

text \<open>
  C4. While the callback is recording on an open socket, it compares \<open>bufferedAmount\<close>
  with the threshold \<open>recorderBufferSize * 2\<close>, twice the frame size of 4096 samples (8192;
  a frame is as many bytes). If the buffered byte count exceeds the threshold (or only
  reaches it) the frame is dropped: nothing is handed to the socket, nothing is kept for
  later, and a warning goes to the console. Below the threshold the encoded frame is
  handed to the socket. So a frame of \<open>recorderBufferSize\<close> samples leaves the buffered
  byte count either as it was or below two thresholds, and along any sequence of events
  with such frames it never reaches two thresholds once it is below.
\<close>

theorem onaudioprocess_backpressure:
  assumes "recording st" and "websocket st = Some OPEN"
  shows "(recorderBufferSize * 2 \<le> bufferedAmount st \<longrightarrow>
            onaudioprocess inputData st
              = st\<lparr>console := console st @ [(Warn, ''WebSocket buffer full, dropping audio chunk'')]\<rparr>)
     \<and> (bufferedAmount st < recorderBufferSize * 2 \<longrightarrow>
            onaudioprocess inputData st
              = st\<lparr>sent := sent st @ [encode_buffer inputData],
                   bufferedAmount := bufferedAmount st + 2 * length inputData\<rparr>)
     \<and> (length inputData = recorderBufferSize \<longrightarrow>
            bufferedAmount (onaudioprocess inputData st)
              \<le> max (bufferedAmount st) (2 * (recorderBufferSize * 2) - 1))
     \<and> recorderBufferSize * 2 = 8192
     \<and> (\<forall>JSON_parse events st'.
            run JSON_parse events st = Inr st'
            \<and> bufferedAmount st < 2 * (recorderBufferSize * 2)
            \<and> (\<forall>x. AudioProcess x \<in> set events \<longrightarrow> length x \<le> recorderBufferSize)
            \<longrightarrow> bufferedAmount st' < 2 * (recorderBufferSize * 2))"
proof -
  have one: "(recorderBufferSize * 2 \<le> bufferedAmount st \<longrightarrow>
            onaudioprocess inputData st
              = st\<lparr>console := console st @ [(Warn, ''WebSocket buffer full, dropping audio chunk'')]\<rparr>)
     \<and> (bufferedAmount st < recorderBufferSize * 2 \<longrightarrow>
            onaudioprocess inputData st
              = st\<lparr>sent := sent st @ [encode_buffer inputData],
                   bufferedAmount := bufferedAmount st + 2 * length inputData\<rparr>)
     \<and> (length inputData = recorderBufferSize \<longrightarrow>
            bufferedAmount (onaudioprocess inputData st)
              \<le> max (bufferedAmount st) (2 * (recorderBufferSize * 2) - 1))
     \<and> recorderBufferSize * 2 = 8192"
    using assms
    by (auto simp: onaudioprocess_def say_def send_def encode_buffer_def recorderBufferSize_def)
  have many: "bufferedAmount st' < 2 * (recorderBufferSize * 2)"
    if "run P evs st = Inr st'" "bufferedAmount st < 2 * (recorderBufferSize * 2)"
      "\<forall>x. AudioProcess x \<in> set evs \<longrightarrow> length x \<le> recorderBufferSize" for P evs st'
    using run_bufferedAmount [OF that] .
  show ?thesis using one many by blast
qed

text \<open>
  Witness for C4: with exactly one frame (8192 bytes) still buffered the next frame is
  dropped with a warning; with an empty buffer a frame of two samples is sent.
\<close>

theorem onaudioprocess_backpressure_witness:
  "onaudioprocess [Finite 1, Finite (- 1)]
      (initialPage\<lparr>recording := True, websocket := Some OPEN, bufferedAmount := 8192\<rparr>)
     = initialPage\<lparr>recording := True, websocket := Some OPEN, bufferedAmount := 8192,
          console := [(Warn, ''WebSocket buffer full, dropping audio chunk'')]\<rparr>
   \<and> onaudioprocess [Finite 1, Finite (- 1)]
      (initialPage\<lparr>recording := True, websocket := Some OPEN\<rparr>)
     = initialPage\<lparr>recording := True, websocket := Some OPEN,
          sent := [encode_buffer [Finite 1, Finite (- 1)]], bufferedAmount := 4\<rparr>"
  using onaudioprocess_backpressure
      [of "initialPage\<lparr>recording := True, websocket := Some OPEN, bufferedAmount := 8192\<rparr>"
          "[Finite 1, Finite (- 1)]"]
    onaudioprocess_backpressure
      [of "initialPage\<lparr>recording := True, websocket := Some OPEN\<rparr>" "[Finite 1, Finite (- 1)]"]
  by (simp add: initialPage_def recorderBufferSize_def)

section \<open>The connection timeout of \<open>handleRecord\<close>\<close>

lemma waitForOpen_never:
  "(\<forall>j. k \<le> j \<and> j \<le> k + n \<longrightarrow> rs j \<noteq> OPEN) \<Longrightarrow> waitForOpen rs k n = k + n"
proof (induction n arbitrary: k)
  case 0
  then show ?case by simp
next
  case (Suc n)
  have "rs k \<noteq> OPEN" using Suc.prems by simp
  moreover have "waitForOpen rs (Suc k) n = Suc k + n"
    using Suc.prems by (intro Suc.IH) auto
  ultimately show ?case by simp
qed

lemma demoMode_fields:
  "\<not> streamLive (demoMode st)" "mockInterval (demoMode st) = Some (0, 2500)"
  "isRecording (demoMode st)" "processorNode (demoMode st) = processorNode st"
  "sent (demoMode st) = sent st"
  "error (demoMode st) = Some ''Could not connect to transcription service. Using demo mode.''"
  by (simp_all add: demoMode_def simulateTranscription_def)

lemma setupWebSocket_devices:
  "setupWebSocket env st = Inr st1 \<Longrightarrow> processorNode st1 = processorNode st \<and> sent st1 = sent st"
  by (auto simp: setupWebSocket_def Let_def split: option.splits if_splits)

lemma setupWebSocket_Inr:
  "getWebSocketUrl (API_BASE_URL env) \<noteq> None \<Longrightarrow> newWebSocket env \<Longrightarrow>
     \<exists>st1. setupWebSocket env st = Inr st1"
  by (auto simp: setupWebSocket_def Let_def split: option.splits)

text \<open>
  What the fallback does under every scheduling. The microphone is granted and the
  socket is created, but none of the readings of \<open>readyState\<close> (reading 0 and one after
  each of the 30 delays of 1000 ms) finds it open. Then \<open>handleRecord\<close> uses all 30
  delays, stops the microphone stream, starts the interval of the scripted transcription
  (index 0, period 2500 ms), shows the demo-mode message and connects no processor node;
  and whatever events follow, also if the socket opens later, no audio frame is handed to
  the socket. The state has one socket, so this is said of a page that has no processor
  node connected when the recording is started.
\<close>

lemma handleRecord_fallback:
  assumes "mediaDevices env" and "getUserMedia env"
    and "getWebSocketUrl (API_BASE_URL env) \<noteq> None" and "newWebSocket env"
    and "\<forall>k\<le>MAX_RETRIES. readyStateAt env k \<noteq> OPEN"
    and "\<not> processorNode st0"
  shows "waitForOpen (readyStateAt env) 0 MAX_RETRIES = 30
     \<and> MAX_RETRIES * RETRY_DELAY_MS = 30000
     \<and> \<not> streamLive (handleRecord env st0)
     \<and> mockInterval (handleRecord env st0) = Some (0, 2500)
     \<and> isRecording (handleRecord env st0)
     \<and> error (handleRecord env st0)
           = Some ''Could not connect to transcription service. Using demo mode.''
     \<and> \<not> processorNode (handleRecord env st0)
     \<and> sent (handleRecord env st0) = sent st0
     \<and> (\<forall>JSON_parse events st'.
            run JSON_parse events (handleRecord env st0) = Inr st' \<longrightarrow> sent st' = sent st0)"
proof -
  let ?st = "(setError None st0)\<lparr>recordingDuration := 0, streamLive := True\<rparr>"
  have w: "waitForOpen (readyStateAt env) 0 MAX_RETRIES = MAX_RETRIES"
    using waitForOpen_never [of 0 MAX_RETRIES "readyStateAt env"] assms(5) by simp
  have closed: "readyStateAt env MAX_RETRIES \<noteq> OPEN" using assms(5) by simp
  obtain st1 where s1: "setupWebSocket env ?st = Inr st1"
    using setupWebSocket_Inr [OF assms(3,4)] by blast
  from setupWebSocket_devices [OF s1] assms(6)
  have d1: "\<not> processorNode st1" "sent st1 = sent st0" by simp_all
  define st2 where "st2 = st1\<lparr>console := console st1
        @ replicate MAX_RETRIES (Log, ''Waiting for WebSocket connection''),
      websocket := Some (readyStateAt env MAX_RETRIES)\<rparr>"
  have d2: "\<not> processorNode st2" "sent st2 = sent st0" using d1 by (simp_all add: st2_def)
  have h: "handleRecord env st0 = demoMode st2"
    using assms(1,2) s1 w closed by (simp add: handleRecord_def Let_def st2_def)
  have fin: "\<not> processorNode (handleRecord env st0)" "sent (handleRecord env st0) = sent st0"
    using d2 by (simp_all add: h demoMode_fields)
  have after: "sent st' = sent st0" if "run P evs (handleRecord env st0) = Inr st'" for P evs st'
    using run_no_processor [OF that fin(1)] fin(2) by simp
  show ?thesis
    using w fin after by (simp add: h demoMode_fields MAX_RETRIES_def RETRY_DELAY_MS_def)
qed

text \<open>
  C3, the code at a failing input. The socket stays in \<open>CONNECTING\<close> through all 31
  readings, so \<open>handleRecord\<close> stops the stream and starts the simulation; then React
  runs each function passed to \<open>setTranscript\<close> when it next renders, after \<open>index++\<close>.
  The first run of the interval's callback appends the second line of the script, not
  the first, and no audio is sent; the tenth run reads \<open>mockConversation[10].text\<close> and
  ends in a TypeError that nothing catches. The scripted sequence is not what is emitted.
\<close>

theorem fallback_deferred_skips_first_line:
  "\<not> streamLive (handleRecord
       \<lparr>mediaDevices = True, getUserMedia = True, API_BASE_URL = Some ''https://api.example.org'',
        newWebSocket = True, readyStateAt = (\<lambda>k. CONNECTING), audioGraph = True,
        newMediaRecorder = True\<rparr> initialPage)
   \<and> mockInterval (handleRecord
       \<lparr>mediaDevices = True, getUserMedia = True, API_BASE_URL = Some ''https://api.example.org'',
        newWebSocket = True, readyStateAt = (\<lambda>k. CONNECTING), audioGraph = True,
        newMediaRecorder = True\<rparr> initialPage) = Some (0, 2500)
   \<and> (case run (\<lambda>raw. None) [MockTick True 2500 2500]
          (handleRecord
            \<lparr>mediaDevices = True, getUserMedia = True, API_BASE_URL = Some ''https://api.example.org'',
             newWebSocket = True, readyStateAt = (\<lambda>k. CONNECTING), audioGraph = True,
             newMediaRecorder = True\<rparr> initialPage) of
         Inl e \<Rightarrow> None
       | Inr st \<Rightarrow> Some (map text_line (transcript st), sent st))
      = Some ([Some (JStr ''Hello doctor, I've been having some headaches lately.'')], [])
   \<and> run (\<lambda>raw. None) (replicate 10 (MockTick True 2500 2500))
          (handleRecord
            \<lparr>mediaDevices = True, getUserMedia = True, API_BASE_URL = Some ''https://api.example.org'',
             newWebSocket = True, readyStateAt = (\<lambda>k. CONNECTING), audioGraph = True,
             newMediaRecorder = True\<rparr> initialPage)
      = Inl TypeError"
  by code_simp

text \<open>
  The scripted sequence, when React runs each appended function at once: \<open>n\<close> runs of
  the interval's callback append the next \<open>n\<close> lines of \<open>mockConversation\<close> in order.
\<close>

lemma mockTicks_scripted:
  "mockInterval st = Some (i, p) \<Longrightarrow> i + length cs \<le> length mockConversation \<Longrightarrow>
   run P (map (\<lambda>c. MockTick False (fst c) (snd c)) cs) st
     = Inr (st\<lparr>transcript := transcript st
                 @ map (\<lambda>(c, m). mockLine (fst c) (snd c) m) (zip cs (drop i mockConversation)),
               mockInterval := Some (i + length cs, p)\<rparr>)"
proof (induction cs arbitrary: st i)
  case Nil
  then show ?case by simp
next
  case (Cons c cs)
  have i: "i < length mockConversation" using Cons.prems(2) by simp
  define st1 where
    "st1 = (appendLine (mockLine (fst c) (snd c) (mockConversation ! i)) st)
             \<lparr>mockInterval := Some (i + 1, p)\<rparr>"
  have t: "mockTick False (fst c) (snd c) st = Inr st1"
    using Cons.prems(1) i by (simp add: mockTick_def st1_def)
  have m: "mockInterval st1 = Some (Suc i, p)" by (simp add: st1_def)
  have d: "drop i mockConversation = mockConversation ! i # drop (Suc i) mockConversation"
    using i by (simp add: Cons_nth_drop_Suc)
  have "run P (map (\<lambda>c. MockTick False (fst c) (snd c)) cs) st1
     = Inr (st1\<lparr>transcript := transcript st1
                 @ map (\<lambda>(c, m). mockLine (fst c) (snd c) m) (zip cs (drop (Suc i) mockConversation)),
               mockInterval := Some (Suc i + length cs, p)\<rparr>)"
    using Cons.prems(2) by (intro Cons.IH [OF m]) simp
  then show ?case
    using t by (simp add: d st1_def appendLine_def)
qed

end
